theory Spec2Isabelle
  imports Complex_Main "HOL-Library.Signed_Division" "HOL-Library.Monad_Syntax"
begin

section \<open>The Folding@home exporter (main.go)\<close>

text \<open>
  A shallow embedding of the collector of \<^verbatim>\<open>src/main.go\<close>: the metric descriptors
  built by \<^verbatim>\<open>NewExporter\<close>, the operations \<^verbatim>\<open>Describe\<close> and \<^verbatim>\<open>Collect\<close>, and the five
  parsers \<^verbatim>\<open>parseUptime\<close>, \<^verbatim>\<open>parseDate\<close>, \<^verbatim>\<open>parseInfo\<close>, \<^verbatim>\<open>parseSlotInfo\<close> and
  \<^verbatim>\<open>parseQueueInfo\<close>.

  Go strings are byte strings and are modelled as \<^typ>\<open>string\<close>. A \<^verbatim>\<open>float64\<close> is
  modelled as a \<^typ>\<open>real\<close>: the rounding of floating-point arithmetic is not part of
  the model. Go's \<^verbatim>\<open>int\<close> is modelled as \<^typ>\<open>int\<close>; the exporter only compares such
  values with zero, prints them and converts them to \<^verbatim>\<open>float64\<close>.
\<close>

subsection \<open>Descriptors and metrics (prometheus)\<close>

type_synonym float64 = real

text \<open>
  \<^verbatim>\<open>prometheus.Desc\<close>: the fully qualified name, the help text and the names of the
  variable labels. The constant labels are \<^verbatim>\<open>nil\<close> in every call of \<^verbatim>\<open>NewExporter\<close>.
\<close>

record Desc =
  fqName :: string
  helpText :: string
  variableLabels :: "string list"

definition NewDesc :: "string \<Rightarrow> string \<Rightarrow> string list \<Rightarrow> Desc" where
  "NewDesc name h labels = \<lparr>fqName = name, helpText = h, variableLabels = labels\<rparr>"

text \<open>
  \<^verbatim>\<open>prometheus.BuildFQName\<close> joins the non-empty parts with an underscore; an empty
  name gives the empty string.
\<close>

definition BuildFQName :: "string \<Rightarrow> string \<Rightarrow> string \<Rightarrow> string" where
  "BuildFQName ns subsystem name =
     (if name = [] then []
      else if ns \<noteq> [] \<and> subsystem \<noteq> [] then ns @ ''_'' @ subsystem @ ''_'' @ name
      else if ns \<noteq> [] then ns @ ''_'' @ name
      else if subsystem \<noteq> [] then subsystem @ ''_'' @ name
      else name)"

text \<open>
  A constant gauge metric, as \<^verbatim>\<open>prometheus.MustNewConstMetric(desc, GaugeValue, v, labelValues...)\<close>
  builds it. Every call in \<^verbatim>\<open>main.go\<close> passes as many label values as the descriptor
  declares label names. The library panics on a label value that is not valid UTF-8; that
  panic is not part of the model.
\<close>

record Metric =
  desc :: Desc
  val :: float64
  labelValues :: "string list"

definition MustNewConstMetric :: "Desc \<Rightarrow> float64 \<Rightarrow> string list \<Rightarrow> Metric" where
  "MustNewConstMetric d v ls = \<lparr>desc = d, val = v, labelValues = ls\<rparr>"

subsection \<open>The exporter and its descriptors\<close>

definition namespace :: string where
  "namespace = ''foldingathome''"

definition subsystemSlot :: string where
  "subsystemSlot = ''slot''"

definition subsystemWorkUnit :: string where
  "subsystemWorkUnit = ''work_unit''"

text \<open>The struct \<^verbatim>\<open>Exporter\<close>; its logger is modelled by the log entries of the trace below.\<close>

record Exporter =
  address :: string
  up :: Desc
  uptime :: Desc
  time :: Desc
  version :: Desc
  slotStatus :: Desc
  slotAttempts :: Desc
  slotNextAttempt :: Desc
  slotEstimatedPointsPerDay :: Desc
  workUnitStepsCompletedPercent :: Desc
  workUnitCreditEstimatePoints :: Desc
  workUnitEstimatedCompletionSeconds :: Desc
  workUnitTimeRemainingSeconds :: Desc

definition NewExporter :: "string \<Rightarrow> Exporter" where
  "NewExporter addr =
    \<lparr>address = addr,
     up = NewDesc (BuildFQName namespace [] ''up'')
       ''Could the FAHClient be reached.'' [],
     uptime = NewDesc (BuildFQName namespace [] ''uptime_seconds'')
       ''Number of seconds since the FAHClient started.'' [],
     time = NewDesc (BuildFQName namespace [] ''time_seconds'')
       ''Current UNIX time according to the server.'' [],
     version = NewDesc (BuildFQName namespace [] ''version'')
       ''The version of this FAHClient.'' [''version''],
     slotStatus = NewDesc (BuildFQName namespace subsystemSlot ''status'')
       ''The status of the slot, encoded numerically. 0 => uknown, 1 => ready, 2 => download, 3 => running, 4 => upload, 5 => finishing, 6 => stopping, 7 => paused''
       [''id'', ''slot_description''],
     slotAttempts = NewDesc (BuildFQName namespace subsystemSlot ''attempts'')
       ''Number of attempts to download a work unit.'' [''id'', ''slot_description''],
     slotNextAttempt = NewDesc (BuildFQName namespace subsystemSlot ''next_attempt_seconds'')
       ''Seconds until the next attempt to download a work unit.'' [''id'', ''slot_description''],
     slotEstimatedPointsPerDay =
       NewDesc (BuildFQName namespace subsystemSlot ''estimated_points_per_day'')
       ''Estimated number of points the slot can produce in a day.'' [''id'', ''slot_description''],
     workUnitStepsCompletedPercent =
       NewDesc (BuildFQName namespace subsystemWorkUnit ''steps_completed_percent'')
       ''Work unit completion percentage.'' [''id'', ''slot_description'', ''prcg''],
     workUnitCreditEstimatePoints =
       NewDesc (BuildFQName namespace subsystemWorkUnit ''credit_estimate_points'')
       ''Estimated number of points that will be credited for the work unit.''
       [''id'', ''slot_description'', ''prcg''],
     workUnitEstimatedCompletionSeconds =
       NewDesc (BuildFQName namespace subsystemWorkUnit ''estimated_completion_seconds'')
       ''Estimated seconds until the work unit is completed.''
       [''id'', ''slot_description'', ''prcg''],
     workUnitTimeRemainingSeconds =
       NewDesc (BuildFQName namespace subsystemWorkUnit ''time_remaining_seconds'')
       (''Seconds until the work unit'' @ [CHR 0x27] @ ''s deadline, after which the work unit is expired and will be discarded by the client.'')
       [''id'', ''slot_description'', ''prcg'']\<rparr>"

text \<open>The twelve descriptor fields of the struct, in the order of their declaration.\<close>

definition descriptors :: "Exporter \<Rightarrow> Desc list" where
  "descriptors e =
    [up e, uptime e, time e, version e, slotStatus e, slotAttempts e, slotNextAttempt e,
     slotEstimatedPointsPerDay e, workUnitStepsCompletedPercent e,
     workUnitCreditEstimatePoints e, workUnitEstimatedCompletionSeconds e,
     workUnitTimeRemainingSeconds e]"

text \<open>\<^verbatim>\<open>Describe\<close>: the descriptors sent on the channel, in the order of the sends.\<close>

definition Describe :: "Exporter \<Rightarrow> Desc list" where
  "Describe e =
    [up e, uptime e, time e, version e, slotStatus e, slotAttempts e, slotNextAttempt e,
     workUnitStepsCompletedPercent e, workUnitCreditEstimatePoints e,
     workUnitEstimatedCompletionSeconds e, workUnitTimeRemainingSeconds e]"

subsection \<open>Strings (package strings, fmt)\<close>

text \<open>
  \<^verbatim>\<open>strings.HasPrefix\<close>, \<^verbatim>\<open>strings.HasSuffix\<close> and \<^verbatim>\<open>strings.TrimSuffix(s, suffix)\<close>: the
  last is \<^verbatim>\<open>s\<close> without the trailing \<^verbatim>\<open>suffix\<close>, if it ends with it.
\<close>

definition HasPrefix :: "string \<Rightarrow> string \<Rightarrow> bool" where
  "HasPrefix s pre = (length s \<ge> length pre \<and> take (length pre) s = pre)"

definition HasSuffix :: "string \<Rightarrow> string \<Rightarrow> bool" where
  "HasSuffix s suf = (length s \<ge> length suf \<and> drop (length s - length suf) s = suf)"

definition TrimSuffix :: "string \<Rightarrow> string \<Rightarrow> string" where
  "TrimSuffix s suf = (if HasSuffix s suf then take (length s - length suf) s else s)"

text \<open>
  \<^verbatim>\<open>strings.ReplaceAll(s, old, new)\<close>: the non-overlapping occurrences of \<^verbatim>\<open>old\<close>, from
  the left, replaced by \<^verbatim>\<open>new\<close>. The exporter calls it with \<^verbatim>\<open>old = " "\<close> only; the
  clause of the library for an empty \<^verbatim>\<open>old\<close> is left out (the text is returned as it is).
\<close>

function ReplaceAll :: "string \<Rightarrow> string \<Rightarrow> string \<Rightarrow> string" where
  "ReplaceAll [] old new = []"
| "ReplaceAll (c # s) old new =
     (if old \<noteq> [] \<and> HasPrefix (c # s) old
      then new @ ReplaceAll (drop (length old) (c # s)) old new
      else c # ReplaceAll s old new)"
  by pat_completeness auto
termination
  by (relation "measure (\<lambda>(s, old, new). length s)") (auto simp: neq_Nil_conv)

text \<open>The verb \<^verbatim>\<open>%d\<close> of \<^verbatim>\<open>fmt.Sprintf\<close>: a decimal numeral, with a minus sign if negative.\<close>

definition digitChar :: "nat \<Rightarrow> char" where
  "digitChar k = ''0123456789'' ! k"

fun digits10 :: "nat \<Rightarrow> string" where
  "digits10 n =
     (if n < 10 then [digitChar n] else digits10 (n div 10) @ [digitChar (n mod 10)])"

declare digits10.simps [simp del]

definition fmt_d :: "int \<Rightarrow> string" where
  "fmt_d i = (if i < 0 then ''-'' @ digits10 (nat (- i)) else digits10 (nat i))"

subsection \<open>Durations (package time)\<close>

text \<open>
  A \<^verbatim>\<open>time.Duration\<close> is a count of nanoseconds. \<^verbatim>\<open>Seconds()\<close> adds the whole seconds
  and the remaining nanoseconds, both obtained by Go's truncating division.
\<close>

type_synonym Duration = int

definition Second :: Duration where
  "Second = 1000000000"

definition Seconds :: "Duration \<Rightarrow> float64" where
  "Seconds d = real_of_int (d sdiv Second) + real_of_int (d smod Second) / 1000000000"

subsection \<open>Errors, panics and the trace of a poll\<close>

text \<open>
  The error values of the program: the errors the client collaborator returns, those of
  \<^verbatim>\<open>time.ParseDuration\<close> and \<^verbatim>\<open>time.Parse\<close>, and the one \<^verbatim>\<open>parseInfo\<close> creates.
\<close>

datatype error =
    ClientError string
  | InvalidDuration string
  | MissingUnit string
  | UnknownUnit string string
  | TimeParseError string
  | ErrorsNew string

text \<open>A run-time panic of Go: an index out of range, or a failed type assertion.\<close>

datatype panic = IndexOutOfRange | TypeAssertionFailed

text \<open>The calls on the client collaborator (package fahapi).\<close>

datatype call = CallNewAPI string | CallExec string | CallInfo | CallSlotInfo | CallQueueInfo
  | CallClose

text \<open>
  The observable steps of a poll, in the order they happen: a call on the client, a metric
  sent on the channel \<^verbatim>\<open>ch\<close>, a log entry of level error with its message and error.
\<close>

datatype event = Call call | Send Metric | LogError string error

text \<open>The metrics sent on the channel, in order.\<close>

fun sent :: "event list \<Rightarrow> Metric list" where
  "sent [] = []"
| "sent (Send m # evs) = m # sent evs"
| "sent (_ # evs) = sent evs"

text \<open>The calls made on the client, in order.\<close>

fun calls :: "event list \<Rightarrow> call list" where
  "calls [] = []"
| "calls (Call c # evs) = c # calls evs"
| "calls (_ # evs) = calls evs"

subsection \<open>The slot status parser\<close>

text \<open>
  The fields of \<^verbatim>\<open>fahapi.SlotInfo\<close> and \<^verbatim>\<open>fahapi.SlotQueueInfo\<close> the exporter reads. The
  two types are declared in package fahapi, outside the repository; the field
  types follow the spec's data model (strings, integers, durations).
\<close>

record SlotInfo =
  ID :: string
  Status :: string
  Description :: string

record SlotQueueInfo =
  Slot :: string
  State :: string
  Attempts :: int
  NextAttempt :: Duration
  PPD :: int
  Project :: int
  Run :: int
  Clone :: int
  Gen :: int
  PercentDone :: string
  CreditEstimate :: int
  ETA :: Duration
  TimeRemaining :: Duration

text \<open>The map literal \<^verbatim>\<open>statusMap\<close> of \<^verbatim>\<open>parseSlotInfo\<close>.\<close>

definition statusMap :: "string \<rightharpoonup> float64" where
  "statusMap =
     [''ready'' \<mapsto> 1, ''download'' \<mapsto> 2, ''running'' \<mapsto> 3, ''upload'' \<mapsto> 4,
      ''finishing'' \<mapsto> 5, ''stopping'' \<mapsto> 6, ''paused'' \<mapsto> 7]"

text \<open>Indexing a Go map: the zero value of the element type for a key that is absent.\<close>

definition index_float64 :: "(string \<rightharpoonup> float64) \<Rightarrow> string \<Rightarrow> float64" where
  "index_float64 m k = (case m k of None \<Rightarrow> 0 | Some v \<Rightarrow> v)"

definition zeroSlotInfo :: SlotInfo where
  "zeroSlotInfo = \<lparr>ID = [], Status = [], Description = []\<rparr>"

definition index_SlotInfo :: "(string \<rightharpoonup> SlotInfo) \<Rightarrow> string \<Rightarrow> SlotInfo" where
  "index_SlotInfo m k = (case m k of None \<Rightarrow> zeroSlotInfo | Some v \<Rightarrow> v)"

text \<open>
  \<^verbatim>\<open>parseSlotInfo\<close>: one send per element of the slice, and the result \<^verbatim>\<open>nil\<close>. The
  parsers return the events they cause and the error they return (\<open>None\<close> for \<^verbatim>\<open>nil\<close>).
  \<^verbatim>\<open>strings.ToLower\<close> belongs to the Go standard library and is a parameter of the model,
  the function \<open>ToLower\<close>: what is proved holds for every function in its place.
\<close>

definition parseSlotInfo ::
  "(string \<Rightarrow> string) \<Rightarrow> Exporter \<Rightarrow> SlotInfo list \<Rightarrow> event list \<times> error option"
where
  "parseSlotInfo ToLower e slotInfo =
     (map (\<lambda>info. Send (MustNewConstMetric (slotStatus e)
              (index_float64 statusMap (ToLower (Status info))) [ID info, Description info]))
        slotInfo,
      None)"

subsection \<open>The queue/slot joiner\<close>

text \<open>The first loop of \<^verbatim>\<open>parseQueueInfo\<close>: the slots by id, a later slot replacing an earlier one.\<close>

definition slotMapOf :: "SlotInfo list \<Rightarrow> (string \<rightharpoonup> SlotInfo)" where
  "slotMapOf slotInfo = foldl (\<lambda>m sInfo. m(ID sInfo \<mapsto> sInfo)) Map.empty slotInfo"

text \<open>
  The body of the second loop, for one queue entry. \<^verbatim>\<open>strconv.ParseFloat\<close> belongs to the
  Go standard library and is a parameter of the model: \<open>ParseFloat s\<close> is \<open>Some v\<close> when
  the call returns the value \<open>v\<close> and a \<^verbatim>\<open>nil\<close> error, and \<open>None\<close> when it returns an error.
\<close>

definition queueEntry ::
  "(string \<Rightarrow> string) \<Rightarrow> (string \<Rightarrow> float64 option) \<Rightarrow> Exporter \<Rightarrow> (string \<rightharpoonup> SlotInfo) \<Rightarrow>
     SlotQueueInfo \<Rightarrow> event list"
where
  "queueEntry ToLower ParseFloat e slotMap qInfo =
     (let sid = ID (index_SlotInfo slotMap (Slot qInfo));
          sdesc = Description (index_SlotInfo slotMap (Slot qInfo));
          prcg = fmt_d (Project qInfo) @ '' ('' @ fmt_d (Run qInfo) @ '', '' @
                 fmt_d (Clone qInfo) @ '', '' @ fmt_d (Gen qInfo) @ '')'';
          state = ToLower (State qInfo)
      in (if state = ''download''
          then [Send (MustNewConstMetric (slotAttempts e) (real_of_int (Attempts qInfo)) [sid, sdesc]),
                Send (MustNewConstMetric (slotNextAttempt e) (Seconds (NextAttempt qInfo)) [sid, sdesc])]
          else []) @
         (if state = ''running'' \<or> state = ''finishing''
          then [Send (MustNewConstMetric (slotEstimatedPointsPerDay e) (real_of_int (PPD qInfo))
                  [sid, sdesc])]
          else []) @
         (if \<not> (Project qInfo = 0 \<and> Run qInfo = 0 \<and> Clone qInfo = 0 \<and> Gen qInfo = 0)
          then (case ParseFloat (TrimSuffix (PercentDone qInfo) ''%'') of
                  Some percentDone \<Rightarrow>
                    [Send (MustNewConstMetric (workUnitStepsCompletedPercent e) percentDone
                       [sid, sdesc, prcg])]
                | None \<Rightarrow> []) @
               [Send (MustNewConstMetric (workUnitCreditEstimatePoints e)
                  (real_of_int (CreditEstimate qInfo)) [sid, sdesc, prcg]),
                Send (MustNewConstMetric (workUnitEstimatedCompletionSeconds e)
                  (Seconds (ETA qInfo)) [sid, sdesc, prcg]),
                Send (MustNewConstMetric (workUnitTimeRemainingSeconds e)
                  (Seconds (TimeRemaining qInfo)) [sid, sdesc, prcg])]
          else []))"

definition parseQueueInfo ::
  "(string \<Rightarrow> string) \<Rightarrow> (string \<Rightarrow> float64 option) \<Rightarrow> Exporter \<Rightarrow> SlotInfo list \<Rightarrow>
     SlotQueueInfo list \<Rightarrow> event list \<times> error option"
where
  "parseQueueInfo ToLower ParseFloat e slotInfo queueInfo =
     (concat (map (queueEntry ToLower ParseFloat e (slotMapOf slotInfo)) queueInfo), None)"

subsection \<open>The info parser\<close>

text \<open>
  A value of type \<^verbatim>\<open>interface{}\<close> as the JSON decoder of the client produces it. A type
  assertion \<^verbatim>\<open>x.(T)\<close> on a value of another dynamic type panics, and so does an index
  beyond the length of a slice.
\<close>

datatype iface = INil | IBool bool | IFloat64 float64 | IString string
  | ISlice "iface list" | IMap "(string \<times> iface) list"

text \<open>
  The inner loop of \<^verbatim>\<open>parseInfo\<close> over \<^verbatim>\<open>section[1:]\<close>: the version found, \<open>None\<close> when
  the loop ends without one, or the panic.
\<close>

fun findVersion :: "iface list \<Rightarrow> panic + string option" where
  "findVersion [] = Inr None"
| "findVersion (pairs # rest) =
     (case pairs of
        ISlice typedPairs \<Rightarrow>
          (case typedPairs of
             [] \<Rightarrow> Inl IndexOutOfRange
           | k # kvs \<Rightarrow>
               (case k of
                  IString key \<Rightarrow>
                    if key = ''Version''
                    then (case kvs of
                            [] \<Rightarrow> Inl IndexOutOfRange
                          | v # _ \<Rightarrow>
                              (case v of
                                 IString ver \<Rightarrow> Inr (Some ver)
                               | _ \<Rightarrow> Inl TypeAssertionFailed))
                    else findVersion rest
                | _ \<Rightarrow> Inl TypeAssertionFailed))
      | _ \<Rightarrow> Inl TypeAssertionFailed)"

definition versionNotFound :: error where
  "versionNotFound = ErrorsNew ''Version not found in info response''"

text \<open>\<^verbatim>\<open>parseInfo\<close>: \<open>Inl\<close> is a panic, \<open>Inr\<close> the events and the error returned.\<close>

fun parseInfo :: "Exporter \<Rightarrow> iface list list \<Rightarrow> panic + (event list \<times> error option)" where
  "parseInfo e [] =
     Inr ([LogError ''Failed to parse version'' versionNotFound], Some versionNotFound)"
| "parseInfo e (sect # rest) =
     (case sect of
        [] \<Rightarrow> Inl IndexOutOfRange
      | name # pairs \<Rightarrow>
          (case name of
             IString n \<Rightarrow>
               if n = ''FAHClient''
               then (case findVersion pairs of
                       Inl p \<Rightarrow> Inl p
                     | Inr (Some ver) \<Rightarrow> Inr ([Send (MustNewConstMetric (version e) 1 [ver])], None)
                     | Inr None \<Rightarrow> parseInfo e rest)
               else parseInfo e rest
           | _ \<Rightarrow> Inl TypeAssertionFailed))"

subsection \<open>The uptime parser\<close>

text \<open>
  Modelled from the spec: \<^verbatim>\<open>time.ParseDuration\<close> belongs to the Go standard library, which
  is not among the sources of the repository. The spec calls its input a compact textual
  duration with the unit
  letters h, m and s, and notes that a unit of days is not supported. The model follows
  the grammar the library documents, \<^verbatim>\<open>[-+]?([0-9]*(\.[0-9]*)?[a-z]+)+\<close>, with the units
  ns, us, ms, s, m and h, an unsigned 64-bit count of nanoseconds and the library's
  overflow checks. The library computes the contribution of a fractional part in
  \<^verbatim>\<open>float64\<close>; the model computes it exactly and truncates.
\<close>

definition isDigit :: "char \<Rightarrow> bool" where
  "isDigit c = ((48::nat) \<le> of_char c \<and> (of_char c :: nat) \<le> 57)"

definition digitVal :: "char \<Rightarrow> nat" where
  "digitVal c = of_char c - 48"

text \<open>\<^verbatim>\<open>leadingInt\<close>: the leading digits as a number and the rest; \<open>None\<close> on overflow.\<close>

fun leadingInt_loop :: "nat \<Rightarrow> string \<Rightarrow> (nat \<times> string) option" where
  "leadingInt_loop x [] = Some (x, [])"
| "leadingInt_loop x (c # s) =
     (if \<not> isDigit c then Some (x, c # s)
      else if x > 2 ^ 63 div 10 then None
      else if x * 10 + digitVal c > 2 ^ 63 then None
      else leadingInt_loop (x * 10 + digitVal c) s)"

definition leadingInt :: "string \<Rightarrow> (nat \<times> string) option" where
  "leadingInt s = leadingInt_loop 0 s"

text \<open>
  \<^verbatim>\<open>leadingFraction\<close>: the digits after the point as a number, the power of ten that
  scales it, and the rest; digits that would overflow are skipped.
\<close>

fun leadingFraction_loop :: "nat \<Rightarrow> nat \<Rightarrow> bool \<Rightarrow> string \<Rightarrow> nat \<times> nat \<times> string" where
  "leadingFraction_loop x scale overflow [] = (x, scale, [])"
| "leadingFraction_loop x scale overflow (c # s) =
     (if \<not> isDigit c then (x, scale, c # s)
      else if overflow then leadingFraction_loop x scale True s
      else if x > (2 ^ 63 - 1) div 10 then leadingFraction_loop x scale True s
      else if x * 10 + digitVal c > 2 ^ 63 then leadingFraction_loop x scale True s
      else leadingFraction_loop (x * 10 + digitVal c) (scale * 10) False s)"

definition leadingFraction :: "string \<Rightarrow> nat \<times> nat \<times> string" where
  "leadingFraction s = leadingFraction_loop 0 1 False s"

text \<open>The units and their length in nanoseconds; the two middle keys are the micro signs in UTF-8.\<close>

definition unitMap :: "string \<rightharpoonup> nat" where
  "unitMap =
     [''ns'' \<mapsto> 1, ''us'' \<mapsto> 1000,
      [CHR 0xC2, CHR 0xB5, CHR ''s''] \<mapsto> 1000, [CHR 0xCE, CHR 0xBC, CHR ''s''] \<mapsto> 1000,
      ''ms'' \<mapsto> 1000000, ''s'' \<mapsto> 1000000000, ''m'' \<mapsto> 60000000000,
      ''h'' \<mapsto> 3600000000000]"

definition unitChar :: "char \<Rightarrow> bool" where
  "unitChar c = (c \<noteq> CHR ''.'' \<and> \<not> isDigit c)"

text \<open>
  One round of the loop of \<^verbatim>\<open>ParseDuration\<close> on a non-empty rest \<open>s\<close>: a number, an
  optional fraction and a unit. The result is the nanoseconds of the round and the rest.
\<close>

definition parseSegment :: "string \<Rightarrow> string \<Rightarrow> error + (nat \<times> string)" where
  "parseSegment orig s =
     (if \<not> (s \<noteq> [] \<and> (hd s = CHR ''.'' \<or> isDigit (hd s))) then Inl (InvalidDuration orig)
      else case leadingInt s of
        None \<Rightarrow> Inl (InvalidDuration orig)
      | Some (v, s1) \<Rightarrow>
          (let pre = (length s \<noteq> length s1);
               frac = (if s1 \<noteq> [] \<and> hd s1 = CHR ''.'' then leadingFraction (tl s1)
                       else (0, 1, s1));
               f = fst frac;
               scale = fst (snd frac);
               s2 = snd (snd frac);
               post = (s1 \<noteq> [] \<and> hd s1 = CHR ''.'' \<and> length (tl s1) \<noteq> length s2);
               u = takeWhile unitChar s2;
               s3 = dropWhile unitChar s2
           in if \<not> pre \<and> \<not> post then Inl (InvalidDuration orig)
              else if u = [] then Inl (MissingUnit orig)
              else case unitMap u of
                None \<Rightarrow> Inl (UnknownUnit u orig)
              | Some unit \<Rightarrow>
                  if v > 2 ^ 63 div unit then Inl (InvalidDuration orig)
                  else if f > 0 \<and> v * unit + f * unit div scale > 2 ^ 63
                  then Inl (InvalidDuration orig)
                  else Inr (if f > 0 then v * unit + f * unit div scale else v * unit, s3)))"

lemma leadingInt_loop_length:
  "leadingInt_loop x s = Some (v, r) \<Longrightarrow> length r \<le> length s"
  by (induction x s rule: leadingInt_loop.induct) (auto split: if_splits)

lemma leadingFraction_loop_length:
  "leadingFraction_loop x sc b s = (f, sc', r) \<Longrightarrow> length r \<le> length s"
  by (induction x sc b s rule: leadingFraction_loop.induct) (auto split: if_splits)

lemma parseSegment_shorter:
  assumes "parseSegment orig s = Inr (v, r)"
  shows "length r < length s"
proof -
  from assms obtain v0 s1 where li: "leadingInt s = Some (v0, s1)"
    by (auto simp: parseSegment_def split: if_splits option.splits)
  define s2 where
    "s2 = snd (snd (if s1 \<noteq> [] \<and> hd s1 = CHR ''.'' then leadingFraction (tl s1) else (0, 1, s1)))"
  from assms li have u: "takeWhile unitChar s2 \<noteq> []" and r: "r = dropWhile unitChar s2"
    by (auto simp: parseSegment_def Let_def s2_def split: if_splits option.splits)
  have "length s1 \<le> length s"
    using li leadingInt_loop_length [of 0 s v0 s1] by (simp add: leadingInt_def)
  moreover have "length s2 \<le> length s1"
  proof (cases "s1 \<noteq> [] \<and> hd s1 = CHR ''.''")
    case True
    obtain f sc r' where lf: "leadingFraction (tl s1) = (f, sc, r')"
      by (cases "leadingFraction (tl s1)") auto
    then have "length r' \<le> length (tl s1)"
      using leadingFraction_loop_length [of 0 1 False "tl s1" f sc r']
      by (simp add: leadingFraction_def)
    with True lf show ?thesis by (simp add: s2_def)
  next
    case False
    then show ?thesis by (auto simp: s2_def)
  qed
  moreover have "length r < length s2"
  proof -
    have "length (takeWhile unitChar s2) + length (dropWhile unitChar s2) = length s2"
      by (metis length_append takeWhile_dropWhile_id)
    with u r show ?thesis by (cases "takeWhile unitChar s2") auto
  qed
  ultimately show ?thesis by linarith
qed

text \<open>
  The loop \<^verbatim>\<open>for s != ""\<close>: the sum \<open>d\<close> of the rounds so far is an unsigned 64-bit
  number, so the addition wraps.
\<close>

function ParseDuration_loop :: "string \<Rightarrow> nat \<Rightarrow> string \<Rightarrow> error + nat" where
  "ParseDuration_loop orig d s =
     (if s = [] then Inr d
      else case parseSegment orig s of
        Inl err \<Rightarrow> Inl err
      | Inr (v, r) \<Rightarrow>
          if (d + v) mod 2 ^ 64 > 2 ^ 63 then Inl (InvalidDuration orig)
          else ParseDuration_loop orig ((d + v) mod 2 ^ 64) r)"
  by pat_completeness auto
termination
  by (relation "measure (\<lambda>(orig, d, s). length s)") (auto dest: parseSegment_shorter)

declare ParseDuration_loop.simps [simp del]

definition ParseDuration :: "string \<Rightarrow> error + Duration" where
  "ParseDuration orig =
     (let neg = (orig \<noteq> [] \<and> hd orig = CHR ''-'');
          s = (if orig \<noteq> [] \<and> (hd orig = CHR ''-'' \<or> hd orig = CHR ''+'') then tl orig else orig)
      in if s = ''0'' then Inr 0
         else if s = [] then Inl (InvalidDuration orig)
         else case ParseDuration_loop orig 0 s of
           Inl err \<Rightarrow> Inl err
         | Inr d \<Rightarrow>
             if neg then Inr (- int d)
             else if d > 2 ^ 63 - 1 then Inl (InvalidDuration orig)
             else Inr (int d))"

definition backslash :: string where
  "backslash = [CHR 0x5C]"

text \<open>\<^verbatim>\<open>parseUptime\<close>.\<close>

definition parseUptime :: "Exporter \<Rightarrow> string \<Rightarrow> event list \<times> error option" where
  "parseUptime e uptimeText =
     (case ParseDuration (ReplaceAll (TrimSuffix uptimeText backslash) '' '' []) of
        Inl err \<Rightarrow> ([LogError ''Failed to parse uptime'' err], Some err)
      | Inr d \<Rightarrow> ([Send (MustNewConstMetric (uptime e) (Seconds d) [])], None))"

subsection \<open>The date parser\<close>

text \<open>
  Modelled from the spec: \<^verbatim>\<open>time.Parse\<close>, the layout \<^verbatim>\<open>time.RFC3339\<close> and \<^verbatim>\<open>Time.Unix\<close>
  belong to the Go standard library, which is not among the sources of the repository.
  The spec calls the input a timestamp string in the standard date-time-with-timezone
  textual format and the output the Unix epoch seconds. The model follows the library's
  parser over the elements of the layout \<^verbatim>\<open>2006-01-02T15:04:05Z07:00\<close>: four digits of
  year; two digits each of month, day, minute and second; an hour of one or two digits;
  after the seconds an optional fraction, a point or a comma and digits; then \<^verbatim>\<open>Z\<close>, or
  a sign, two digits of hours, a colon and two digits of minutes. Month, day, hour, minute
  and second must be in range, the hours of the offset at most 24 and its minutes at
  most 60, and nothing may follow. A \<^verbatim>\<open>time.Time\<close> is represented by its Unix seconds (the
  fraction of a second does not reach the metric).
\<close>

type_synonym Time = int

definition Unix :: "Time \<Rightarrow> int" where
  "Unix t = t"

text \<open>
  \<^verbatim>\<open>getnum(s, fixed)\<close>: a number of two digits, or of one digit when no second digit
  follows and \<open>fixed\<close> is false.
\<close>

definition getnum :: "string \<Rightarrow> bool \<Rightarrow> (int \<times> string) option" where
  "getnum s fixed =
     (case s of
        [] \<Rightarrow> None
      | a # r \<Rightarrow>
          if \<not> isDigit a then None
          else if r \<noteq> [] \<and> isDigit (hd r)
          then Some (int (digitVal a * 10 + digitVal (hd r)), tl r)
          else if fixed then None
          else Some (int (digitVal a), r))"

text \<open>The element \<^verbatim>\<open>2006\<close>: the first four bytes, all of them digits.\<close>

definition getnum4 :: "string \<Rightarrow> (int \<times> string) option" where
  "getnum4 s =
     (case s of
        a # b # c # d # r \<Rightarrow>
          if isDigit a \<and> isDigit b \<and> isDigit c \<and> isDigit d
          then Some (int (digitVal a * 1000 + digitVal b * 100 + digitVal c * 10 + digitVal d), r)
          else None
      | _ \<Rightarrow> None)"

definition skipChar :: "char \<Rightarrow> string \<Rightarrow> string option" where
  "skipChar c s = (case s of [] \<Rightarrow> None | x # r \<Rightarrow> if x = c then Some r else None)"

definition commaOrPeriod :: "char \<Rightarrow> bool" where
  "commaOrPeriod c = (c = CHR ''.'' \<or> c = CHR '','')"

text \<open>The rest after a fraction of a second, if one follows the seconds.\<close>

definition fracSeconds :: "string \<Rightarrow> string" where
  "fracSeconds s =
     (case s of
        c # d # r \<Rightarrow> if commaOrPeriod c \<and> isDigit d then dropWhile isDigit r else s
      | _ \<Rightarrow> s)"

text \<open>
  The element \<^verbatim>\<open>Z07:00\<close>: the offset in seconds and the rest. The library rejects an offset of
  more than 24 hours or of more than 60 minutes, so that 24 hours and 60 minutes pass.
\<close>

definition zoneOffset :: "string \<Rightarrow> (int \<times> string) option" where
  "zoneOffset s =
     (if s \<noteq> [] \<and> hd s = CHR ''Z'' then Some (0, tl s)
      else case s of
        sign # h1 # h2 # colon # m1 # m2 # r \<Rightarrow>
          if colon \<noteq> CHR '':'' then None
          else
            do {
              (hr, r1) \<leftarrow> getnum [h1, h2] True;
              (mm, r2) \<leftarrow> getnum [m1, m2] True;
              if hr > 24 \<or> mm > 60 then None
              else if sign = CHR ''+'' then Some ((hr * 60 + mm) * 60, r)
              else if sign = CHR ''-'' then Some (- ((hr * 60 + mm) * 60), r)
              else None
            }
      | _ \<Rightarrow> None)"

definition isLeap :: "int \<Rightarrow> bool" where
  "isLeap y = (y mod 4 = 0 \<and> (y mod 100 \<noteq> 0 \<or> y mod 400 = 0))"

definition daysIn :: "int \<Rightarrow> int \<Rightarrow> int" where
  "daysIn m y =
     (if m = 2 then (if isLeap y then 29 else 28)
      else if m = 4 \<or> m = 6 \<or> m = 9 \<or> m = 11 then 30
      else 31)"

text \<open>The leap years among the years \<open>1\<close> to \<open>y - 1\<close>.\<close>

definition leapsBefore :: "int \<Rightarrow> int" where
  "leapsBefore y = (y - 1) div 4 - (y - 1) div 100 + (y - 1) div 400"

definition daysBeforeYear :: "int \<Rightarrow> int" where
  "daysBeforeYear y = 365 * (y - 1970) + (leapsBefore y - leapsBefore 1970)"

definition daysBeforeMonth :: "int \<Rightarrow> int \<Rightarrow> int" where
  "daysBeforeMonth m y = sum_list (map (\<lambda>k. daysIn k y) [1..m - 1])"

definition unixSeconds :: "int \<Rightarrow> int \<Rightarrow> int \<Rightarrow> int \<Rightarrow> int \<Rightarrow> int \<Rightarrow> int" where
  "unixSeconds y mo d h mi s =
     (daysBeforeYear y + daysBeforeMonth mo y + (d - 1)) * 86400 + h * 3600 + mi * 60 + s"

definition rfc3339 :: "string \<Rightarrow> Time option" where
  "rfc3339 s0 =
     do {
       (year, s1) \<leftarrow> getnum4 s0;
       s2 \<leftarrow> skipChar (CHR ''-'') s1;
       (month, s3) \<leftarrow> getnum s2 True;
       s4 \<leftarrow> skipChar (CHR ''-'') s3;
       (day, s5) \<leftarrow> getnum s4 True;
       s6 \<leftarrow> skipChar (CHR ''T'') s5;
       (hour, s7) \<leftarrow> getnum s6 False;
       s8 \<leftarrow> skipChar (CHR '':'') s7;
       (minute, s9) \<leftarrow> getnum s8 True;
       s10 \<leftarrow> skipChar (CHR '':'') s9;
       (sec, s11) \<leftarrow> getnum s10 True;
       (off, s12) \<leftarrow> zoneOffset (fracSeconds s11);
       if s12 = [] \<and> 1 \<le> month \<and> month \<le> 12 \<and> 1 \<le> day \<and> day \<le> daysIn month year \<and>
          hour < 24 \<and> minute < 60 \<and> sec < 60
       then Some (unixSeconds year month day hour minute sec - off)
       else None
     }"

definition time_Parse_RFC3339 :: "string \<Rightarrow> error + Time" where
  "time_Parse_RFC3339 s = (case rfc3339 s of None \<Rightarrow> Inl (TimeParseError s) | Some t \<Rightarrow> Inr t)"

text \<open>\<^verbatim>\<open>parseDate\<close>.\<close>

definition parseDate :: "Exporter \<Rightarrow> string \<Rightarrow> event list \<times> error option" where
  "parseDate e dateText =
     (case time_Parse_RFC3339 (TrimSuffix dateText backslash) of
        Inl err \<Rightarrow> ([LogError ''Failed to parse date'' err], Some err)
      | Inr t \<Rightarrow> ([Send (MustNewConstMetric (time e) (real_of_int (Unix t)) [])], None))"

subsection \<open>The collector\<close>

text \<open>
  The client collaborator (package fahapi, outside the repository) as one poll sees it: the
  error of \<^verbatim>\<open>NewAPI\<close> for an address (\<open>None\<close> for \<^verbatim>\<open>nil\<close>), and for each query the pair of
  the value and the error it returns. \<^verbatim>\<open>Collect\<close> uses the value of a query whether or
  not the error is \<^verbatim>\<open>nil\<close>.
\<close>

record FAHClient =
  NewAPI :: "string \<Rightarrow> error option"
  Exec :: "string \<Rightarrow> string \<times> error option"
  Info :: "iface list list \<times> error option"
  GetSlotInfo :: "SlotInfo list \<times> error option"
  GetQueueInfo :: "SlotQueueInfo list \<times> error option"

text \<open>The two commands of \<^verbatim>\<open>Collect\<close>; in each, a backslash and the letter n stand before the last quote.\<close>

definition cmdUptime :: string where
  "cmdUptime = ''eval '' @ [CHR 0x22] @ ''$(uptime)'' @ [CHR 0x5C] @ ''n'' @ [CHR 0x22]"

definition cmdDate :: string where
  "cmdDate = ''eval '' @ [CHR 0x22] @ ''$(date)'' @ [CHR 0x5C] @ ''n'' @ [CHR 0x22]"

text \<open>A query and the log entry that follows it when it fails.\<close>

definition query :: "call \<Rightarrow> string \<Rightarrow> error option \<Rightarrow> event list" where
  "query c msg err = Call c # (case err of None \<Rightarrow> [] | Some er \<Rightarrow> [LogError msg er])"

text \<open>How a call of \<^verbatim>\<open>Collect\<close> ends: it returns, or a panic leaves it.\<close>

datatype ending = Returns | Panics panic

text \<open>
  \<^verbatim>\<open>Collect\<close>: the trace of the poll and its ending. The variable \<^verbatim>\<open>up\<close> of the source is
  threaded through as \<open>up1\<close> to \<open>up10\<close>. The deferred \<^verbatim>\<open>api.Close()\<close> runs when the function
  returns and also when a panic leaves it, but not when \<^verbatim>\<open>NewAPI\<close> fails.
\<close>

definition Collect ::
  "(string \<Rightarrow> string) \<Rightarrow> (string \<Rightarrow> float64 option) \<Rightarrow> Exporter \<Rightarrow> FAHClient \<Rightarrow>
     event list \<times> ending"
where
  "Collect ToLower ParseFloat e api =
     (case NewAPI api (address e) of
        Some err \<Rightarrow>
          ([Call (CallNewAPI (address e)),
            Send (MustNewConstMetric (up e) 0 []),
            LogError ''Failed to connect to FAHClient'' err],
           Returns)
      | None \<Rightarrow>
          (let uptimeText = fst (Exec api cmdUptime); err1 = snd (Exec api cmdUptime);
               up1 = (if err1 \<noteq> None then 0 else 1);
               dateText = fst (Exec api cmdDate); err2 = snd (Exec api cmdDate);
               up2 = (if err2 \<noteq> None then 0 else up1);
               info = fst (Info api); err3 = snd (Info api);
               up3 = (if err3 \<noteq> None then 0 else up2);
               slotInfo = fst (GetSlotInfo api); err4 = snd (GetSlotInfo api);
               up4 = (if err4 \<noteq> None then 0 else up3);
               queueInfo = fst (GetQueueInfo api); err5 = snd (GetQueueInfo api);
               up5 = (if err5 \<noteq> None then 0 else up4);
               queries =
                 [Call (CallNewAPI (address e))] @
                 query (CallExec cmdUptime) ''Failed to collect uptime from FAHClient'' err1 @
                 query (CallExec cmdDate) ''Failed to collect date from FAHClient'' err2 @
                 query CallInfo ''Failed to collect info from FAHClient'' err3 @
                 query CallSlotInfo ''Failed to collect slot-info from FAHClient'' err4 @
                 query CallQueueInfo ''Failed to collect queue-info from FAHClient'' err5;
               r1 = parseUptime e uptimeText;
               up6 = (if snd r1 \<noteq> None then 0 else up5);
               r2 = parseDate e dateText;
               up7 = (if snd r2 \<noteq> None then 0 else up6)
           in case parseInfo e info of
                Inl p \<Rightarrow> (queries @ fst r1 @ fst r2 @ [Call CallClose], Panics p)
              | Inr r3 \<Rightarrow>
                  (let up8 = (if snd r3 \<noteq> None then 0 else up7);
                       r4 = parseSlotInfo ToLower e slotInfo;
                       up9 = (if snd r4 \<noteq> None then 0 else up8);
                       r5 = parseQueueInfo ToLower ParseFloat e slotInfo queueInfo;
                       up10 = (if snd r5 \<noteq> None then 0 else up9)
                   in (queries @ fst r1 @ fst r2 @ fst r3 @ fst r4 @ fst r5 @
                       [Send (MustNewConstMetric (up e) up10 []), Call CallClose],
                       Returns))))"

section \<open>Properties\<close>

subsection \<open>Example inputs\<close>

text \<open>
  A poll in which every query succeeds: one slot and one queue entry in state running,
  with the identity quadruple (9999, 1, 2, 3). The info tree is a parameter of the example.
\<close>

definition exampleQueueInfo :: SlotQueueInfo where
  "exampleQueueInfo =
     \<lparr>Slot = ''00'', State = ''RUNNING'', Attempts = 0, NextAttempt = 0, PPD = 12345,
      Project = 9999, Run = 1, Clone = 2, Gen = 3, PercentDone = ''50.00%'',
      CreditEstimate = 700, ETA = 60000000000, TimeRemaining = 3600000000000\<rparr>"

text \<open>
  The lowering of the ASCII letters \<^verbatim>\<open>A\<close> to \<^verbatim>\<open>Z\<close>, every other byte left as it is. On a
  text of ASCII bytes, as the texts of the examples are, \<^verbatim>\<open>strings.ToLower\<close> gives the same.
\<close>

definition toLowerByte :: "char \<Rightarrow> char" where
  "toLowerByte c =
     (case map_of (zip ''ABCDEFGHIJKLMNOPQRSTUVWXYZ'' ''abcdefghijklmnopqrstuvwxyz'') c of
        Some l \<Rightarrow> l
      | None \<Rightarrow> c)"

definition asciiToLower :: "string \<Rightarrow> string" where
  "asciiToLower s = map toLowerByte s"

definition exampleParseFloat :: "string \<Rightarrow> float64 option" where
  "exampleParseFloat s = (if s = ''50.00'' then Some 50 else None)"

definition exampleInfo :: "iface list list" where
  "exampleInfo = [[IString ''FAHClient'', ISlice [IString ''Version'', IString ''7.6.9'']]]"

definition exampleClient :: "iface list list \<Rightarrow> FAHClient" where
  "exampleClient info =
     \<lparr>NewAPI = (\<lambda>addr. None),
      Exec = (\<lambda>cmd. if cmd = cmdUptime then (''1h2m3s'', None)
                     else (''2020-05-09T20:04:48Z'', None)),
      Info = (info, None),
      GetSlotInfo = ([\<lparr>ID = ''00'', Status = ''RUNNING'', Description = ''cpu:4''\<rparr>], None),
      GetQueueInfo = ([exampleQueueInfo], None)\<rparr>"

definition exampleExporter :: Exporter where
  "exampleExporter = NewExporter ''localhost:36330''"

subsection \<open>Helper lemmas\<close>

lemmas exporter_defs = NewExporter_def NewDesc_def BuildFQName_def namespace_def
  subsystemSlot_def subsystemWorkUnit_def

lemmas duration_defs = ParseDuration_def ParseDuration_loop.simps parseSegment_def
  leadingInt_def leadingFraction_def isDigit_def digitVal_def unitMap_def unitChar_def

lemmas date_defs = time_Parse_RFC3339_def rfc3339_def getnum_def getnum4_def skipChar_def
  fracSeconds_def commaOrPeriod_def zoneOffset_def isDigit_def digitVal_def daysIn_def isLeap_def
  unixSeconds_def daysBeforeYear_def daysBeforeMonth_def leapsBefore_def upto.simps Unix_def

lemma TrimSuffix_single:
  "TrimSuffix s [c] = (if s \<noteq> [] \<and> last s = c then butlast s else s)"
proof (cases s rule: rev_cases)
  case Nil
  then show ?thesis by (simp add: TrimSuffix_def HasSuffix_def)
next
  case (snoc ys y)
  then show ?thesis by (auto simp: TrimSuffix_def HasSuffix_def)
qed

lemma ReplaceAll_space: "ReplaceAll s '' '' [] = filter (\<lambda>c. c \<noteq> CHR '' '') s"
  by (induction s) (auto simp: HasPrefix_def)

lemma Seconds_whole: "Seconds (int n * 1000000000) = real n"
  by (simp add: Seconds_def Second_def signed_divide_int_def signed_modulo_int_def sgn_if)

lemma sent_append: "sent (xs @ ys) = sent xs @ sent ys"
  by (induction xs rule: sent.induct) auto

lemma calls_append: "calls (xs @ ys) = calls xs @ calls ys"
  by (induction xs rule: calls.induct) auto

lemma sent_query: "sent (query c msg err) = []"
  by (cases err) (simp_all add: query_def)

lemma calls_query: "calls (query c msg err) = [c]"
  by (cases err) (simp_all add: query_def)

lemma sent_map_Send: "sent (map (\<lambda>x. Send (f x)) xs) = map f xs"
  by (induction xs) auto

lemma calls_map_Send: "calls (map (\<lambda>x. Send (f x)) xs) = []"
  by (induction xs) auto

lemma parseUptime_1h2m3s:
  "parseUptime e ''1h2m3s'' = ([Send \<lparr>desc = uptime e, val = 3723, labelValues = []\<rparr>], None)"
proof -
  have "ParseDuration ''1h2m3s'' = Inr (int 3723 * 1000000000)"
    by (simp add: duration_defs Let_def)
  then show ?thesis
    by (simp add: parseUptime_def TrimSuffix_single backslash_def ReplaceAll_space
        MustNewConstMetric_def Seconds_whole del: of_nat_numeral)
qed

lemma parseDate_example:
  "parseDate e ''2020-05-09T20:04:48Z'' =
     ([Send \<lparr>desc = time e, val = 1589054688, labelValues = []\<rparr>], None)"
  by (simp add: parseDate_def TrimSuffix_single backslash_def MustNewConstMetric_def date_defs)

lemma parseInfo_example:
  "parseInfo e exampleInfo =
     Inr ([Send \<lparr>desc = version e, val = 1, labelValues = [''7.6.9'']\<rparr>], None)"
  by (simp add: exampleInfo_def MustNewConstMetric_def)

lemma asciiToLower_RUNNING: "asciiToLower ''RUNNING'' = ''running''"
  by (simp add: asciiToLower_def toLowerByte_def)

lemma slotMapOf_single: "slotMapOf [s] = [ID s \<mapsto> s]"
  by (simp add: slotMapOf_def)

lemma queueEntry_example:
  "sent (queueEntry asciiToLower exampleParseFloat e (slotMapOf [\<lparr>ID = ''00'', Status = st, Description = ''cpu:4''\<rparr>])
       exampleQueueInfo) =
   [\<lparr>desc = slotEstimatedPointsPerDay e, val = 12345, labelValues = [''00'', ''cpu:4'']\<rparr>,
    \<lparr>desc = workUnitStepsCompletedPercent e, val = 50,
       labelValues = [''00'', ''cpu:4'', ''9999 (1, 2, 3)'']\<rparr>,
    \<lparr>desc = workUnitCreditEstimatePoints e, val = 700,
       labelValues = [''00'', ''cpu:4'', ''9999 (1, 2, 3)'']\<rparr>,
    \<lparr>desc = workUnitEstimatedCompletionSeconds e, val = 60,
       labelValues = [''00'', ''cpu:4'', ''9999 (1, 2, 3)'']\<rparr>,
    \<lparr>desc = workUnitTimeRemainingSeconds e, val = 3600,
       labelValues = [''00'', ''cpu:4'', ''9999 (1, 2, 3)'']\<rparr>]"
proof -
  have s1: "Seconds 60000000000 = 60" "Seconds 3600000000000 = 3600"
    using Seconds_whole [of 60] Seconds_whole [of 3600] by simp_all
  have f: "fmt_d 9999 = ''9999''" "fmt_d 1 = ''1''" "fmt_d 2 = ''2''" "fmt_d 3 = ''3''"
    by (simp_all add: fmt_d_def digits10.simps digitChar_def)
  show ?thesis
    by (simp add: queueEntry_def exampleQueueInfo_def slotMapOf_single index_SlotInfo_def
        asciiToLower_RUNNING TrimSuffix_single exampleParseFloat_def MustNewConstMetric_def s1 f
        Let_def)
qed


subsection \<open>Describe\<close>

text \<open>
  Claim C10. \<^verbatim>\<open>Describe\<close> sends exactly eleven of the twelve descriptors of the exporter,
  each once: all but the descriptor of \<^verbatim>\<open>foldingathome_slot_estimated_points_per_day\<close>,
  which is never sent, although \<^verbatim>\<open>Collect\<close> can send a metric with that descriptor (it does
  so in the example poll, whose queue entry is in state running).
\<close>

theorem Describe_omits_points_per_day:
  "length (descriptors (NewExporter a)) = 12 \<and>
   distinct (descriptors (NewExporter a)) \<and>
   length (Describe (NewExporter a)) = 11 \<and>
   distinct (Describe (NewExporter a)) \<and>
   set (Describe (NewExporter a)) =
     set (descriptors (NewExporter a)) - {slotEstimatedPointsPerDay (NewExporter a)} \<and>
   slotEstimatedPointsPerDay (NewExporter a) \<notin> set (Describe (NewExporter a)) \<and>
   fqName (slotEstimatedPointsPerDay (NewExporter a)) =
     ''foldingathome_slot_estimated_points_per_day'' \<and>
   (\<exists>ParseFloat api.
      \<exists>m \<in> set (sent (fst (Collect asciiToLower ParseFloat (NewExporter a) api))).
      desc m = slotEstimatedPointsPerDay (NewExporter a))"
proof -
  let ?e = "NewExporter a"
  have 1: "length (descriptors ?e) = 12" "length (Describe ?e) = 11"
    by (simp_all add: descriptors_def Describe_def)
  have 2: "distinct (descriptors ?e)"
    by (simp add: descriptors_def exporter_defs)
  have 3: "set (Describe ?e) = set (descriptors ?e) - {slotEstimatedPointsPerDay ?e}"
    by (auto simp add: descriptors_def Describe_def exporter_defs)
  have 4: "distinct (Describe ?e)"
    by (simp add: Describe_def exporter_defs)
  have 5: "fqName (slotEstimatedPointsPerDay ?e) = ''foldingathome_slot_estimated_points_per_day''"
    by (simp add: exporter_defs)
  have "\<exists>m \<in> set (sent (fst (Collect asciiToLower exampleParseFloat ?e (exampleClient exampleInfo)))).
      desc m = slotEstimatedPointsPerDay ?e"
    by (simp add: Collect_def exampleClient_def Let_def parseInfo_example sent_append
        queueEntry_example parseQueueInfo_def sent_query)
  then have 6: "\<exists>ParseFloat api.
      \<exists>m \<in> set (sent (fst (Collect asciiToLower ParseFloat ?e api))).
      desc m = slotEstimatedPointsPerDay ?e"
    by blast
  from 1 2 3 4 5 6 show ?thesis by simp
qed

subsection \<open>The collector\<close>

definition refusingClient :: FAHClient where
  "refusingClient =
     exampleClient exampleInfo
       \<lparr>NewAPI := (\<lambda>addr. Some (ClientError ''connection refused''))\<rparr>"

text \<open>
  Claim C3. If \<^verbatim>\<open>NewAPI\<close> fails, \<^verbatim>\<open>Collect\<close> sends exactly one metric, the availability
  metric with value 0, logs the error and returns; the attempt to connect is its only
  call on the client, so no query is made.
\<close>

theorem Collect_connection_failure:
  assumes "NewAPI api (address e) = Some err"
  shows "Collect ToLower ParseFloat e api =
           ([Call (CallNewAPI (address e)),
             Send \<lparr>desc = up e, val = 0, labelValues = []\<rparr>,
             LogError ''Failed to connect to FAHClient'' err], Returns) \<and>
         sent (fst (Collect ToLower ParseFloat e api)) = [\<lparr>desc = up e, val = 0, labelValues = []\<rparr>] \<and>
         calls (fst (Collect ToLower ParseFloat e api)) = [CallNewAPI (address e)]"
  using assms by (simp add: Collect_def MustNewConstMetric_def)

theorem Collect_connection_failure_witness:
  "NewAPI refusingClient (address exampleExporter) = Some (ClientError ''connection refused'') \<and>
   sent (fst (Collect asciiToLower exampleParseFloat exampleExporter refusingClient)) =
     [\<lparr>desc = up exampleExporter, val = 0, labelValues = []\<rparr>] \<and>
   calls (fst (Collect asciiToLower exampleParseFloat exampleExporter refusingClient)) =
     [CallNewAPI ''localhost:36330'']"
proof -
  have h: "NewAPI refusingClient (address exampleExporter) = Some (ClientError ''connection refused'')"
    by (simp add: refusingClient_def)
  have a: "address exampleExporter = ''localhost:36330''"
    by (simp add: exampleExporter_def NewExporter_def)
  show ?thesis
    using h a Collect_connection_failure [OF h, of asciiToLower exampleParseFloat] by simp
qed

text \<open>
  When the connection opens and \<^verbatim>\<open>parseInfo\<close> does not panic, the metrics of the poll
  are those of the five parsers, in order, followed by the availability metric, whose value
  is 1 if the five queries and the parses of uptime, date and info succeeded and 0 otherwise.
\<close>


lemma calls_concat: "calls (concat xss) = concat (map calls xss)"
  by (induction xss) (simp_all add: calls_append)

lemma sent_concat: "sent (concat xss) = concat (map sent xss)"
  by (induction xss) (simp_all add: sent_append)

lemma calls_queueEntry: "calls (queueEntry ToLower ParseFloat e sm q) = []"
  by (simp add: queueEntry_def Let_def calls_append split: option.splits)

lemma calls_parseQueueInfo: "calls (fst (parseQueueInfo ToLower ParseFloat e sl ql)) = []"
  by (simp add: parseQueueInfo_def calls_concat calls_queueEntry)

lemma calls_parseSlotInfo: "calls (fst (parseSlotInfo ToLower e sl)) = []"
  by (simp add: parseSlotInfo_def calls_map_Send)

lemma calls_parseUptime: "calls (fst (parseUptime e s)) = []"
  by (simp add: parseUptime_def split: sum.splits)

lemma calls_parseDate: "calls (fst (parseDate e s)) = []"
  by (simp add: parseDate_def split: sum.splits)

lemma parseInfo_Inr:
  "parseInfo e info = Inr r \<Longrightarrow>
     (\<exists>ver. r = ([Send \<lparr>desc = version e, val = 1, labelValues = [ver]\<rparr>], None)) \<or>
     r = ([LogError ''Failed to parse version'' versionNotFound], Some versionNotFound)"
  by (induction e info rule: parseInfo.induct)
    (auto simp: MustNewConstMetric_def split: list.splits iface.splits sum.splits option.splits
      if_splits)

lemma calls_parseInfo: "parseInfo e info = Inr r \<Longrightarrow> calls (fst r) = []"
  by (auto dest: parseInfo_Inr)

lemma Collect_returns:
  assumes "NewAPI api (address e) = None"
    and "parseInfo e (fst (Info api)) = Inr r3"
  shows "snd (Collect ToLower ParseFloat e api) = Returns"
    and "sent (fst (Collect ToLower ParseFloat e api)) =
           sent (fst (parseUptime e (fst (Exec api cmdUptime)))) @
           sent (fst (parseDate e (fst (Exec api cmdDate)))) @
           sent (fst r3) @
           sent (fst (parseSlotInfo ToLower e (fst (GetSlotInfo api)))) @
           sent (fst (parseQueueInfo ToLower ParseFloat e (fst (GetSlotInfo api)) (fst (GetQueueInfo api)))) @
           [\<lparr>desc = up e,
             val = (if snd (Exec api cmdUptime) = None \<and> snd (Exec api cmdDate) = None \<and>
                       snd (Info api) = None \<and> snd (GetSlotInfo api) = None \<and>
                       snd (GetQueueInfo api) = None \<and>
                       snd (parseUptime e (fst (Exec api cmdUptime))) = None \<and>
                       snd (parseDate e (fst (Exec api cmdDate))) = None \<and>
                       snd r3 = None
                    then 1 else 0),
             labelValues = []\<rparr>]"
    and "calls (fst (Collect ToLower ParseFloat e api)) =
           [CallNewAPI (address e), CallExec cmdUptime, CallExec cmdDate, CallInfo, CallSlotInfo,
            CallQueueInfo, CallClose]"
proof -
  have q: "snd (parseSlotInfo ToLower e s) = None" "snd (parseQueueInfo ToLower ParseFloat e s q) = None" for s q
    by (simp_all add: parseSlotInfo_def parseQueueInfo_def)
  show "snd (Collect ToLower ParseFloat e api) = Returns"
    using assms by (simp add: Collect_def Let_def)
  show "sent (fst (Collect ToLower ParseFloat e api)) =
           sent (fst (parseUptime e (fst (Exec api cmdUptime)))) @
           sent (fst (parseDate e (fst (Exec api cmdDate)))) @
           sent (fst r3) @
           sent (fst (parseSlotInfo ToLower e (fst (GetSlotInfo api)))) @
           sent (fst (parseQueueInfo ToLower ParseFloat e (fst (GetSlotInfo api)) (fst (GetQueueInfo api)))) @
           [\<lparr>desc = up e,
             val = (if snd (Exec api cmdUptime) = None \<and> snd (Exec api cmdDate) = None \<and>
                       snd (Info api) = None \<and> snd (GetSlotInfo api) = None \<and>
                       snd (GetQueueInfo api) = None \<and>
                       snd (parseUptime e (fst (Exec api cmdUptime))) = None \<and>
                       snd (parseDate e (fst (Exec api cmdDate))) = None \<and>
                       snd r3 = None
                    then 1 else 0),
             labelValues = []\<rparr>]"
    using assms
    by (simp add: Collect_def Let_def sent_append sent_query q MustNewConstMetric_def)
  show "calls (fst (Collect ToLower ParseFloat e api)) =
           [CallNewAPI (address e), CallExec cmdUptime, CallExec cmdDate, CallInfo, CallSlotInfo,
            CallQueueInfo, CallClose]"
    using assms
    by (simp add: Collect_def Let_def calls_append calls_query calls_parseUptime calls_parseDate
        calls_parseSlotInfo calls_parseQueueInfo calls_parseInfo [OF assms(2)])
qed

text \<open>
  An info tree on which \<^verbatim>\<open>parseInfo\<close> does not panic: every section starts with a string,
  and every other element of a section is a slice of at least two strings.
\<close>

definition stringKeyedPair :: "iface \<Rightarrow> bool" where
  "stringKeyedPair x =
     (case x of
        ISlice (IString k # IString v # rest) \<Rightarrow> True
      | _ \<Rightarrow> False)"

definition wellFormedSection :: "iface list \<Rightarrow> bool" where
  "wellFormedSection sect =
     (case sect of
        IString n # pairs \<Rightarrow> list_all stringKeyedPair pairs
      | _ \<Rightarrow> False)"

lemma findVersion_wellFormed:
  "list_all stringKeyedPair pairs \<Longrightarrow> \<exists>r. findVersion pairs = Inr r"
  by (induction pairs rule: findVersion.induct)
    (auto simp: stringKeyedPair_def split: iface.splits list.splits)

lemma parseInfo_wellFormed:
  "list_all wellFormedSection info \<Longrightarrow> \<exists>r. parseInfo e info = Inr r"
proof (induction e info rule: parseInfo.induct)
  case (1 e)
  then show ?case by simp
next
  case (2 e sect rest)
  from "2.prems" have wf: "wellFormedSection sect" and rest: "list_all wellFormedSection rest"
    by simp_all
  from wf obtain n pairs where sect: "sect = IString n # pairs"
    and pairs: "list_all stringKeyedPair pairs"
    by (auto simp: wellFormedSection_def split: list.splits iface.splits)
  from findVersion_wellFormed [OF pairs] obtain r where r: "findVersion pairs = Inr r" ..
  show ?case
  proof (cases "n = ''FAHClient''")
    case True
    show ?thesis
    proof (cases r)
      case None
      with "2.IH"(1) [OF sect refl True r None] rest r True sect show ?thesis by simp
    next
      case (Some ver)
      with r True sect show ?thesis by simp
    qed
  next
    case False
    with "2.IH"(2) [OF sect refl False] rest sect show ?thesis by simp
  qed
qed

text \<open>
  Claim C1. \<^verbatim>\<open>Collect\<close> does not absorb every failure: it panics on an info tree with an
  empty section (index out of range at \<^verbatim>\<open>section[0]\<close>), on a section that does not start
  with a string, and on a section named FAHClient with an element that is not a slice
  (failed type assertions). The polls below open the connection and all their
  queries succeed.
\<close>

theorem Collect_panics_on_malformed_info:
  "snd (Collect ToLower exampleParseFloat exampleExporter (exampleClient [[]])) = Panics IndexOutOfRange \<and>
   snd (Collect ToLower exampleParseFloat exampleExporter (exampleClient [[INil]])) =
     Panics TypeAssertionFailed \<and>
   snd (Collect ToLower exampleParseFloat exampleExporter
          (exampleClient [[IString ''FAHClient'', IString ''Version'']])) =
     Panics TypeAssertionFailed \<and>
   snd (Collect ToLower exampleParseFloat exampleExporter
          (exampleClient [[IString ''FAHClient'', ISlice [IString ''Version'']]])) =
     Panics IndexOutOfRange"
  by (simp add: Collect_def exampleClient_def Let_def)

text \<open>
  Claim C2. In a poll whose connection opens and whose info tree has an empty section, the
  availability metric is not sent at all: the trace ends with the metrics of uptime and
  date, the deferred \<^verbatim>\<open>Close\<close> and the panic.
\<close>

theorem Collect_sends_no_up_on_panic:
  "Collect ToLower exampleParseFloat exampleExporter (exampleClient [[]]) =
     ([Call (CallNewAPI ''localhost:36330''), Call (CallExec cmdUptime), Call (CallExec cmdDate),
       Call CallInfo, Call CallSlotInfo, Call CallQueueInfo,
       Send \<lparr>desc = uptime exampleExporter, val = 3723, labelValues = []\<rparr>,
       Send \<lparr>desc = time exampleExporter, val = 1589054688, labelValues = []\<rparr>,
       Call CallClose],
      Panics IndexOutOfRange) \<and>
   up exampleExporter \<notin> desc ` set (sent (fst (Collect ToLower exampleParseFloat exampleExporter
      (exampleClient [[]]))))"
proof -
  have a: "address exampleExporter = ''localhost:36330''"
    by (simp add: exampleExporter_def NewExporter_def)
  have d: "up exampleExporter \<noteq> uptime exampleExporter" "up exampleExporter \<noteq> time exampleExporter"
    by (simp_all add: exampleExporter_def exporter_defs)
  have c: "cmdUptime \<noteq> cmdDate"
    by (simp add: cmdUptime_def cmdDate_def)
  have "Collect ToLower exampleParseFloat exampleExporter (exampleClient [[]]) =
     ([Call (CallNewAPI ''localhost:36330''), Call (CallExec cmdUptime), Call (CallExec cmdDate),
       Call CallInfo, Call CallSlotInfo, Call CallQueueInfo,
       Send \<lparr>desc = uptime exampleExporter, val = 3723, labelValues = []\<rparr>,
       Send \<lparr>desc = time exampleExporter, val = 1589054688, labelValues = []\<rparr>,
       Call CallClose],
      Panics IndexOutOfRange)"
    using c
    by (simp add: Collect_def exampleClient_def Let_def a query_def parseUptime_1h2m3s
        parseDate_example)
  then show ?thesis using d by simp
qed

subsection \<open>The slot status parser\<close>

text \<open>
  Claim C6. For every list of slot records, \<^verbatim>\<open>parseSlotInfo\<close> sends exactly one status gauge
  per slot, in order, labelled by the id and the description of the slot (the two label
  names of the descriptor), whose value is the entry of the table for the status text as
  \<^verbatim>\<open>strings.ToLower\<close> normalizes it: ready 1, download 2, running 3, upload 4, finishing 5,
  stopping 6, paused 7, and 0 for every other text, the empty one included. It does nothing
  else and never returns an error. \<open>ToLower\<close> stands for \<^verbatim>\<open>strings.ToLower\<close>: the statement
  holds for every function in its place.
\<close>

theorem parseSlotInfo_status:
  "sent (fst (parseSlotInfo ToLower e slotInfo)) =
     map (\<lambda>info. \<lparr>desc = slotStatus e,
                   val = index_float64 statusMap (ToLower (Status info)),
                   labelValues = [ID info, Description info]\<rparr>) slotInfo \<and>
   fst (parseSlotInfo ToLower e slotInfo) = map Send (sent (fst (parseSlotInfo ToLower e slotInfo))) \<and>
   snd (parseSlotInfo ToLower e slotInfo) = None \<and>
   variableLabels (slotStatus (NewExporter a)) = [''id'', ''slot_description''] \<and>
   map (index_float64 statusMap)
     [''ready'', ''download'', ''running'', ''upload'', ''finishing'', ''stopping'', ''paused'', []] =
     [1, 2, 3, 4, 5, 6, 7, 0] \<and>
   (\<forall>t. t \<notin> {''ready'', ''download'', ''running'', ''upload'', ''finishing'', ''stopping'',
            ''paused''} \<longrightarrow> index_float64 statusMap t = 0)"
proof -
  have 1: "sent (fst (parseSlotInfo ToLower e slotInfo)) =
     map (\<lambda>info. \<lparr>desc = slotStatus e,
                   val = index_float64 statusMap (ToLower (Status info)),
                   labelValues = [ID info, Description info]\<rparr>) slotInfo"
    by (simp add: parseSlotInfo_def sent_map_Send MustNewConstMetric_def)
  have 2: "fst (parseSlotInfo ToLower e slotInfo) = map Send (sent (fst (parseSlotInfo ToLower e slotInfo)))"
    by (simp add: parseSlotInfo_def sent_map_Send)
  have 3: "snd (parseSlotInfo ToLower e slotInfo) = None"
    by (simp add: parseSlotInfo_def)
  have 4: "variableLabels (slotStatus (NewExporter a)) = [''id'', ''slot_description'']"
    by (simp add: exporter_defs)
  have 5: "map (index_float64 statusMap)
     [''ready'', ''download'', ''running'', ''upload'', ''finishing'', ''stopping'', ''paused'', []] =
     [1, 2, 3, 4, 5, 6, 7, 0]"
    by (simp add: index_float64_def statusMap_def)
  have 6: "\<forall>t. t \<notin> {''ready'', ''download'', ''running'', ''upload'', ''finishing'', ''stopping'',
            ''paused''} \<longrightarrow> index_float64 statusMap t = 0"
    by (simp add: index_float64_def statusMap_def)
  show ?thesis by (intro conjI 1 2 3 4 5 6)
qed

definition exampleSlots :: "SlotInfo list" where
  "exampleSlots =
     [\<lparr>ID = ''00'', Status = ''RUNNING'', Description = ''cpu:4''\<rparr>,
      \<lparr>ID = ''01'', Status = ''Paused'', Description = ''gpu:0:TU102''\<rparr>,
      \<lparr>ID = ''02'', Status = [], Description = ''gpu:1''\<rparr>,
      \<lparr>ID = ''03'', Status = ''DISABLED'', Description = ''gpu:2''\<rparr>]"

theorem parseSlotInfo_status_witness:
  "''disabled'' \<notin> {''ready'', ''download'', ''running'', ''upload'', ''finishing'', ''stopping'',
      ''paused''} \<and>
   index_float64 statusMap ''disabled'' = 0 \<and>
   sent (fst (parseSlotInfo asciiToLower exampleExporter exampleSlots)) =
     [\<lparr>desc = slotStatus exampleExporter, val = 3, labelValues = [''00'', ''cpu:4'']\<rparr>,
      \<lparr>desc = slotStatus exampleExporter, val = 7, labelValues = [''01'', ''gpu:0:TU102'']\<rparr>,
      \<lparr>desc = slotStatus exampleExporter, val = 0, labelValues = [''02'', ''gpu:1'']\<rparr>,
      \<lparr>desc = slotStatus exampleExporter, val = 0, labelValues = [''03'', ''gpu:2'']\<rparr>] \<and>
   snd (parseSlotInfo asciiToLower exampleExporter exampleSlots) = None"
proof -
  note th = parseSlotInfo_status [of asciiToLower exampleExporter exampleSlots]
  note rest = th [THEN conjunct2, THEN conjunct2]
  note table = rest [THEN conjunct2, THEN conjunct2]
  have l: "asciiToLower ''RUNNING'' = ''running''" "asciiToLower ''Paused'' = ''paused''"
    "asciiToLower [] = []" "asciiToLower ''DISABLED'' = ''disabled''"
    by (simp_all add: asciiToLower_def toLowerByte_def)
  have n: "''disabled'' \<notin> {''ready'', ''download'', ''running'', ''upload'', ''finishing'',
      ''stopping'', ''paused''}"
    by simp
  have d: "index_float64 statusMap ''disabled'' = 0"
    using n by (rule table [THEN conjunct2, rule_format])
  have v: "index_float64 statusMap ''running'' = 3" "index_float64 statusMap ''paused'' = 7"
    "index_float64 statusMap [] = 0"
    using table [THEN conjunct1] by simp_all
  have "sent (fst (parseSlotInfo asciiToLower exampleExporter exampleSlots)) =
     [\<lparr>desc = slotStatus exampleExporter, val = 3, labelValues = [''00'', ''cpu:4'']\<rparr>,
      \<lparr>desc = slotStatus exampleExporter, val = 7, labelValues = [''01'', ''gpu:0:TU102'']\<rparr>,
      \<lparr>desc = slotStatus exampleExporter, val = 0, labelValues = [''02'', ''gpu:1'']\<rparr>,
      \<lparr>desc = slotStatus exampleExporter, val = 0, labelValues = [''03'', ''gpu:2'']\<rparr>]"
    unfolding th [THEN conjunct1] by (simp add: exampleSlots_def v l d)
  with n d rest [THEN conjunct1] show ?thesis by (intro conjI)
qed

subsection \<open>The queue/slot joiner\<close>



lemma sent_parseQueueInfo:
  "sent (fst (parseQueueInfo ToLower ParseFloat e slotInfo queueInfo)) =
     concat (map (\<lambda>q. sent (queueEntry ToLower ParseFloat e (slotMapOf slotInfo) q)) queueInfo)"
  by (simp add: parseQueueInfo_def sent_concat comp_def)

text \<open>The descriptors of the four work-unit metrics.\<close>

definition workUnitDescs :: "Exporter \<Rightarrow> Desc set" where
  "workUnitDescs e =
     {workUnitStepsCompletedPercent e, workUnitCreditEstimatePoints e,
      workUnitEstimatedCompletionSeconds e, workUnitTimeRemainingSeconds e}"

definition idleQueueInfo :: SlotQueueInfo where
  "idleQueueInfo =
     exampleQueueInfo \<lparr>Project := 0, Run := 0, Clone := 0, Gen := 0, PercentDone := ''0.00%''\<rparr>"

text \<open>
  Claim C4. The metrics \<^verbatim>\<open>parseQueueInfo\<close> sends are those of its queue entries, in order.
  For an entry whose identity quadruple is (0, 0, 0, 0), none of them has one of the four
  work-unit descriptors, whatever the state. For an entry whose quadruple is not all zero,
  whose state as \<^verbatim>\<open>strings.ToLower\<close> normalizes it is running and whose percentage text
  parses, they are exactly
  five: estimated points per day and the four work-unit metrics; none of them is
  attempts or next-attempt-seconds.
\<close>

theorem parseQueueInfo_gating:
  "sent (fst (parseQueueInfo ToLower ParseFloat (NewExporter a) slotInfo queueInfo)) =
     concat (map (\<lambda>q. sent (queueEntry ToLower ParseFloat (NewExporter a) (slotMapOf slotInfo) q))
       queueInfo) \<and>
   (Project q = 0 \<and> Run q = 0 \<and> Clone q = 0 \<and> Gen q = 0 \<longrightarrow>
      (\<forall>m \<in> set (sent (queueEntry ToLower ParseFloat (NewExporter a) slotMap q)).
         desc m \<notin> workUnitDescs (NewExporter a))) \<and>
   (\<not> (Project q = 0 \<and> Run q = 0 \<and> Clone q = 0 \<and> Gen q = 0) \<and>
    ToLower (State q) = ''running'' \<and>
    ParseFloat (TrimSuffix (PercentDone q) ''%'') = Some percentDone \<longrightarrow>
      map (\<lambda>m. (desc m, val m)) (sent (queueEntry ToLower ParseFloat (NewExporter a) slotMap q)) =
        [(slotEstimatedPointsPerDay (NewExporter a), real_of_int (PPD q)),
         (workUnitStepsCompletedPercent (NewExporter a), percentDone),
         (workUnitCreditEstimatePoints (NewExporter a), real_of_int (CreditEstimate q)),
         (workUnitEstimatedCompletionSeconds (NewExporter a), Seconds (ETA q)),
         (workUnitTimeRemainingSeconds (NewExporter a), Seconds (TimeRemaining q))] \<and>
      (\<forall>m \<in> set (sent (queueEntry ToLower ParseFloat (NewExporter a) slotMap q)).
         desc m \<noteq> slotAttempts (NewExporter a) \<and> desc m \<noteq> slotNextAttempt (NewExporter a)))"
proof -
  let ?e = "NewExporter a"
  have d: "slotAttempts ?e \<notin> workUnitDescs ?e" "slotNextAttempt ?e \<notin> workUnitDescs ?e"
    "slotEstimatedPointsPerDay ?e \<notin> workUnitDescs ?e"
    "slotEstimatedPointsPerDay ?e \<noteq> slotAttempts ?e"
    "slotEstimatedPointsPerDay ?e \<noteq> slotNextAttempt ?e"
    "\<forall>x \<in> workUnitDescs ?e. x \<noteq> slotAttempts ?e \<and> x \<noteq> slotNextAttempt ?e"
    by (simp_all add: workUnitDescs_def exporter_defs)
  have z: "\<forall>m \<in> set (sent (queueEntry ToLower ParseFloat ?e slotMap q)). desc m \<notin> workUnitDescs ?e"
    if "Project q = 0 \<and> Run q = 0 \<and> Clone q = 0 \<and> Gen q = 0"
    using that d(1-3) by (simp add: queueEntry_def Let_def MustNewConstMetric_def)
  have r: "map (\<lambda>m. (desc m, val m)) (sent (queueEntry ToLower ParseFloat ?e slotMap q)) =
        [(slotEstimatedPointsPerDay ?e, real_of_int (PPD q)),
         (workUnitStepsCompletedPercent ?e, percentDone),
         (workUnitCreditEstimatePoints ?e, real_of_int (CreditEstimate q)),
         (workUnitEstimatedCompletionSeconds ?e, Seconds (ETA q)),
         (workUnitTimeRemainingSeconds ?e, Seconds (TimeRemaining q))] \<and>
      (\<forall>m \<in> set (sent (queueEntry ToLower ParseFloat ?e slotMap q)).
         desc m \<noteq> slotAttempts ?e \<and> desc m \<noteq> slotNextAttempt ?e)"
    if "\<not> (Project q = 0 \<and> Run q = 0 \<and> Clone q = 0 \<and> Gen q = 0) \<and>
      ToLower (State q) = ''running'' \<and>
      ParseFloat (TrimSuffix (PercentDone q) ''%'') = Some percentDone"
  proof -
    from that have s: "sent (queueEntry ToLower ParseFloat ?e slotMap q) =
       [MustNewConstMetric (slotEstimatedPointsPerDay ?e) (real_of_int (PPD q))
          [ID (index_SlotInfo slotMap (Slot q)), Description (index_SlotInfo slotMap (Slot q))]] @
       map (\<lambda>(dsc, v). MustNewConstMetric dsc v
          [ID (index_SlotInfo slotMap (Slot q)), Description (index_SlotInfo slotMap (Slot q)),
           fmt_d (Project q) @ '' ('' @ fmt_d (Run q) @ '', '' @ fmt_d (Clone q) @ '', '' @
             fmt_d (Gen q) @ '')''])
         [(workUnitStepsCompletedPercent ?e, percentDone),
          (workUnitCreditEstimatePoints ?e, real_of_int (CreditEstimate q)),
          (workUnitEstimatedCompletionSeconds ?e, Seconds (ETA q)),
          (workUnitTimeRemainingSeconds ?e, Seconds (TimeRemaining q))]"
      by (simp add: queueEntry_def Let_def)
    show ?thesis
      unfolding s using d(4-6) by (simp add: MustNewConstMetric_def workUnitDescs_def)
  qed
  show ?thesis
    using sent_parseQueueInfo z r by (intro conjI impI) blast+
qed

theorem parseQueueInfo_gating_witness:
  "(Project idleQueueInfo = 0 \<and> Run idleQueueInfo = 0 \<and> Clone idleQueueInfo = 0 \<and>
    Gen idleQueueInfo = 0) \<and>
   desc ` set (sent (queueEntry asciiToLower exampleParseFloat exampleExporter Map.empty idleQueueInfo)) \<inter>
     workUnitDescs exampleExporter = {} \<and>
   (\<not> (Project exampleQueueInfo = 0 \<and> Run exampleQueueInfo = 0 \<and> Clone exampleQueueInfo = 0 \<and>
        Gen exampleQueueInfo = 0) \<and>
    asciiToLower (State exampleQueueInfo) = ''running'' \<and>
    exampleParseFloat (TrimSuffix (PercentDone exampleQueueInfo) ''%'') = Some 50) \<and>
   map (\<lambda>m. (desc m, val m))
     (sent (queueEntry asciiToLower exampleParseFloat exampleExporter Map.empty exampleQueueInfo)) =
     [(slotEstimatedPointsPerDay exampleExporter, 12345),
      (workUnitStepsCompletedPercent exampleExporter, 50),
      (workUnitCreditEstimatePoints exampleExporter, 700),
      (workUnitEstimatedCompletionSeconds exampleExporter, 60),
      (workUnitTimeRemainingSeconds exampleExporter, 3600)]"
proof -
  have z: "Project idleQueueInfo = 0 \<and> Run idleQueueInfo = 0 \<and> Clone idleQueueInfo = 0 \<and>
    Gen idleQueueInfo = 0"
    by (simp add: idleQueueInfo_def)
  have n: "\<not> (Project exampleQueueInfo = 0 \<and> Run exampleQueueInfo = 0 \<and>
        Clone exampleQueueInfo = 0 \<and> Gen exampleQueueInfo = 0) \<and>
    asciiToLower (State exampleQueueInfo) = ''running'' \<and>
    exampleParseFloat (TrimSuffix (PercentDone exampleQueueInfo) ''%'') = Some 50"
    by (simp add: exampleQueueInfo_def asciiToLower_RUNNING TrimSuffix_single exampleParseFloat_def)
  have v: "real_of_int (PPD exampleQueueInfo) = 12345"
    "real_of_int (CreditEstimate exampleQueueInfo) = 700"
    "Seconds (ETA exampleQueueInfo) = 60" "Seconds (TimeRemaining exampleQueueInfo) = 3600"
    using Seconds_whole [of 60] Seconds_whole [of 3600] by (simp_all add: exampleQueueInfo_def)
  note th1 = parseQueueInfo_gating [of asciiToLower exampleParseFloat "''localhost:36330''" "[]" "[]"
      idleQueueInfo Map.empty, folded exampleExporter_def, THEN conjunct2, THEN conjunct1,
      rule_format, OF z]
  note th2 = parseQueueInfo_gating [of asciiToLower exampleParseFloat "''localhost:36330''" "[]" "[]"
      exampleQueueInfo Map.empty 50, folded exampleExporter_def, THEN conjunct2, THEN conjunct2,
      rule_format, OF n, THEN conjunct1]
  from th1 have e: "desc ` set (sent (queueEntry asciiToLower exampleParseFloat exampleExporter Map.empty
      idleQueueInfo)) \<inter> workUnitDescs exampleExporter = {}"
    by blast
  from z n e th2 [unfolded v] show ?thesis
    by (intro conjI) blast+
qed







subsection \<open>Failed queries\<close>

definition slotQueryFailsClient :: FAHClient where
  "slotQueryFailsClient =
     exampleClient exampleInfo \<lparr>GetSlotInfo := ([], Some (ClientError ''i/o timeout''))\<rparr>"

lemma ParseDuration_empty: "ParseDuration [] = Inl (InvalidDuration [])"
  by (simp add: ParseDuration_def)

lemma time_Parse_RFC3339_empty: "time_Parse_RFC3339 [] = Inl (TimeParseError [])"
  by (simp add: time_Parse_RFC3339_def rfc3339_def getnum4_def)

text \<open>
  Claim C5, as the code has it. Given the empty text, \<^verbatim>\<open>parseUptime\<close> and \<^verbatim>\<open>parseDate\<close> log
  and return a parse error and send nothing; given the empty tree, \<^verbatim>\<open>parseInfo\<close> logs and
  returns the error that no version was found. The slot status parser and the joiner do
  not fail on an empty list: they send nothing for it and return no error. The failure
  of the slot or the queue query still makes the availability metric 0, through the
  error of the query itself.
\<close>

theorem parsers_on_zero_value:
  "parseUptime e [] =
     ([LogError ''Failed to parse uptime'' (InvalidDuration [])], Some (InvalidDuration [])) \<and>
   parseDate e [] =
     ([LogError ''Failed to parse date'' (TimeParseError [])], Some (TimeParseError [])) \<and>
   parseInfo e [] =
     Inr ([LogError ''Failed to parse version'' versionNotFound], Some versionNotFound) \<and>
   parseSlotInfo ToLower e [] = ([], None) \<and>
   parseQueueInfo ToLower ParseFloat e slotInfo [] = ([], None) \<and>
   snd (parseQueueInfo ToLower ParseFloat e [] queueInfo) = None \<and>
   (NewAPI api (address e) = None \<and> parseInfo e (fst (Info api)) = Inr r3 \<and>
    (snd (GetSlotInfo api) \<noteq> None \<or> snd (GetQueueInfo api) \<noteq> None) \<longrightarrow>
      last (sent (fst (Collect ToLower ParseFloat e api))) = \<lparr>desc = up e, val = 0, labelValues = []\<rparr>)"
proof -
  have 1: "parseUptime e [] =
     ([LogError ''Failed to parse uptime'' (InvalidDuration [])], Some (InvalidDuration []))"
    by (simp add: parseUptime_def TrimSuffix_single backslash_def ParseDuration_empty)
  have 2: "parseDate e [] =
     ([LogError ''Failed to parse date'' (TimeParseError [])], Some (TimeParseError []))"
    by (simp add: parseDate_def TrimSuffix_single backslash_def time_Parse_RFC3339_empty)
  have 3: "parseInfo e [] =
     Inr ([LogError ''Failed to parse version'' versionNotFound], Some versionNotFound)"
    by simp
  have 4: "parseSlotInfo ToLower e [] = ([], None)"
    by (simp add: parseSlotInfo_def)
  have 5: "parseQueueInfo ToLower ParseFloat e slotInfo [] = ([], None)"
    by (simp add: parseQueueInfo_def)
  have 6: "snd (parseQueueInfo ToLower ParseFloat e [] queueInfo) = None"
    by (simp add: parseQueueInfo_def)
  have 7: "NewAPI api (address e) = None \<and> parseInfo e (fst (Info api)) = Inr r3 \<and>
    (snd (GetSlotInfo api) \<noteq> None \<or> snd (GetQueueInfo api) \<noteq> None) \<longrightarrow>
      last (sent (fst (Collect ToLower ParseFloat e api))) = \<lparr>desc = up e, val = 0, labelValues = []\<rparr>"
  proof (intro impI, elim conjE)
    assume a: "NewAPI api (address e) = None" and b: "parseInfo e (fst (Info api)) = Inr r3"
      and c: "snd (GetSlotInfo api) \<noteq> None \<or> snd (GetQueueInfo api) \<noteq> None"
    from c show "last (sent (fst (Collect ToLower ParseFloat e api))) =
        \<lparr>desc = up e, val = 0, labelValues = []\<rparr>"
      unfolding Collect_returns(2) [OF a b] by auto
  qed
  show ?thesis by (intro conjI 1 2 3 4 5 6 7)
qed

theorem parsers_on_zero_value_witness:
  "(NewAPI slotQueryFailsClient (address exampleExporter) = None \<and>
    parseInfo exampleExporter (fst (Info slotQueryFailsClient)) =
      Inr ([Send \<lparr>desc = version exampleExporter, val = 1, labelValues = [''7.6.9'']\<rparr>], None) \<and>
    GetSlotInfo slotQueryFailsClient = ([], Some (ClientError ''i/o timeout''))) \<and>
   parseSlotInfo asciiToLower exampleExporter (fst (GetSlotInfo slotQueryFailsClient)) = ([], None) \<and>
   last (sent (fst (Collect asciiToLower exampleParseFloat exampleExporter slotQueryFailsClient))) =
     \<lparr>desc = up exampleExporter, val = 0, labelValues = []\<rparr>"
proof -
  have h: "NewAPI slotQueryFailsClient (address exampleExporter) = None \<and>
    parseInfo exampleExporter (fst (Info slotQueryFailsClient)) =
      Inr ([Send \<lparr>desc = version exampleExporter, val = 1, labelValues = [''7.6.9'']\<rparr>], None) \<and>
    (snd (GetSlotInfo slotQueryFailsClient) \<noteq> None \<or>
     snd (GetQueueInfo slotQueryFailsClient) \<noteq> None)"
    by (simp add: slotQueryFailsClient_def exampleClient_def parseInfo_example)
  have z: "GetSlotInfo slotQueryFailsClient = ([], Some (ClientError ''i/o timeout''))"
    by (simp add: slotQueryFailsClient_def exampleClient_def)
  note th = parsers_on_zero_value [of exampleExporter asciiToLower exampleParseFloat "[]" "[]"
      slotQueryFailsClient]
  note slot = th [THEN conjunct2, THEN conjunct2, THEN conjunct2]
  note coll = slot [THEN conjunct2, THEN conjunct2, THEN conjunct2, rule_format, OF h]
  from h z slot [THEN conjunct1] coll show ?thesis
    by simp
qed

text \<open>
  The slot status parser does not report a failure on the empty list, as the claim C5
  says every parser does on the substitute of a failed query.
\<close>

theorem parseSlotInfo_empty_counterexample:
  "\<not> (snd (parseSlotInfo asciiToLower exampleExporter []) \<noteq> None)"
  by (simp add: parseSlotInfo_def)

subsection \<open>The uptime parser\<close>





lemma digitChar_digit:
  assumes "k < 10"
  shows "isDigit (digitChar k)" and "digitVal (digitChar k) = k"
proof -
  from assms have "k \<in> {0, 1, 2, 3, 4, 5, 6, 7, 8, 9}"
    by auto
  then show "isDigit (digitChar k)" and "digitVal (digitChar k) = k"
    by (auto simp: digitChar_def isDigit_def digitVal_def)
qed
















subsection \<open>The date parser\<close>

text \<open>
  The text of a timestamp in the layout of \<^verbatim>\<open>time.RFC3339\<close>: the date and the time of day
  with two digits per field (four for the year) and the zone, which is \<^verbatim>\<open>Z\<close> or a signed
  offset of hours and minutes (\<open>True\<close> for the sign minus). An offset is in range, as the
  library has it, up to 24 hours and 60 minutes.
\<close>

definition fmt2 :: "nat \<Rightarrow> string" where
  "fmt2 n = [digitChar (n div 10), digitChar (n mod 10)]"

definition fmt4 :: "nat \<Rightarrow> string" where
  "fmt4 n = fmt2 (n div 100) @ fmt2 (n mod 100)"

fun zoneText :: "(bool \<times> nat \<times> nat) option \<Rightarrow> string" where
  "zoneText None = ''Z''"
| "zoneText (Some (neg, hh, mm)) = (if neg then ''-'' else ''+'') @ fmt2 hh @ '':'' @ fmt2 mm"



definition rfc3339Text ::
  "nat \<Rightarrow> nat \<Rightarrow> nat \<Rightarrow> nat \<Rightarrow> nat \<Rightarrow> nat \<Rightarrow> (bool \<times> nat \<times> nat) option \<Rightarrow> string"
where
  "rfc3339Text y mo d h mi s z =
     fmt4 y @ ''-'' @ fmt2 mo @ ''-'' @ fmt2 d @ ''T'' @ fmt2 h @ '':'' @ fmt2 mi @ '':'' @
     fmt2 s @ zoneText z"





lemma rfc3339Text_last: "last (rfc3339Text y mo d h mi s z) \<noteq> CHR 0x5C"
proof (cases z)
  case None
  then show ?thesis by (simp add: rfc3339Text_def)
next
  case (Some t)
  obtain neg hh mm where t: "t = (neg, hh, mm)"
    by (cases t)
  have "isDigit (digitChar (mm mod 10))"
    by (simp add: digitChar_digit)
  then have "digitChar (mm mod 10) \<noteq> CHR 0x5C"
    by (auto simp: isDigit_def)
  then show ?thesis
    by (simp add: rfc3339Text_def Some t fmt2_def)
qed





end
